theory Spec2Isabelle
  imports Complex_Main
begin

section \<open>Python values used by app.py\<close>

text \<open>
  A Python float is a finite number, an infinity or NaN; a finite float is identified with
  the real number it holds. Comparisons of floats, and of a float with an integer literal,
  are exact in Python and are modelled on these values. What the arithmetic of Python and
  NumPy makes of its operands (the rounding of a result, the overflow to an infinity or to
  an OverflowError, the underflow to zero) is not fixed here: it is the parameter
  \<open>runtime\<close> below, and every theorem holds for every runtime.
\<close>

datatype pyfloat = Fin real | PInf | NInf | NaN

text \<open>\<^verbatim>\<open>x >= c\<close> and \<^verbatim>\<open>x < c\<close> for a finite constant \<open>c\<close>.\<close>

fun py_ge :: "pyfloat \<Rightarrow> real \<Rightarrow> bool" where
  "py_ge (Fin r) c = (r \<ge> c)"
| "py_ge PInf c = True"
| "py_ge NInf c = False"
| "py_ge NaN c = False"

fun py_lt :: "pyfloat \<Rightarrow> real \<Rightarrow> bool" where
  "py_lt (Fin r) c = (r < c)"
| "py_lt PInf c = False"
| "py_lt NInf c = True"
| "py_lt NaN c = False"

text \<open>\<^verbatim>\<open>a <= b\<close> on two floats.\<close>

fun py_le :: "pyfloat \<Rightarrow> pyfloat \<Rightarrow> bool" where
  "py_le NaN b = False"
| "py_le a NaN = False"
| "py_le NInf b = True"
| "py_le a PInf = True"
| "py_le (Fin a) (Fin b) = (a \<le> b)"
| "py_le PInf b = False"
| "py_le a NInf = False"

text \<open>The exceptions the request handler can meet.\<close>

datatype exc =
    KeyError string
  | TypeError
  | ValueError
  | ZeroDivisionError
  | OverflowError
  | OtherError string

text \<open>
  The float arithmetic of the interpreter and of NumPy, which is not code of the repository:
  \<^item> \<open>float_of_int\<close> is \<^verbatim>\<open>float(i)\<close> for a Python int: the nearest float, or an
    OverflowError when the int is too large;
  \<^item> \<open>float_of_str\<close> is \<^verbatim>\<open>float(s)\<close> for a string (\<open>None\<close>: the string is not a
    number, ValueError);
  \<^item> \<open>float_div\<close> is the quotient \<^verbatim>\<open>a / b\<close> of two floats when \<open>b\<close> is not zero
    (rounded; an infinity when it overflows, zero when it underflows);
  \<^item> \<open>float_sq\<close> is \<^verbatim>\<open>a ** 2\<close> for a float (rounded, possibly zero when it
    underflows; an OverflowError when it overflows);
  \<^item> \<open>times_100\<close> is the product \<^verbatim>\<open>prob_coronaria_raw * 100\<close> of the model's output
    with the int 100, in the precision NumPy chooses for it;
  \<^item> \<open>lit_070\<close> and \<open>lit_030\<close> are the floats with which the comparisons
    \<^verbatim>\<open>prob_raw >= 0.70\<close> and \<^verbatim>\<open>prob_raw >= 0.30\<close> compare the model's output: the
    literal, rounded to the precision in which the comparison is made.
\<close>

record runtime =
  float_of_int :: "int \<Rightarrow> exc + pyfloat"
  float_of_str :: "string \<Rightarrow> pyfloat option"
  float_div :: "pyfloat \<Rightarrow> pyfloat \<Rightarrow> pyfloat"
  float_sq :: "pyfloat \<Rightarrow> exc + pyfloat"
  times_100 :: "pyfloat \<Rightarrow> pyfloat"
  lit_070 :: real
  lit_030 :: real

text \<open>\<^verbatim>\<open>a / b\<close> on floats: a zero divisor raises, whatever the dividend.\<close>

definition py_truediv :: "runtime \<Rightarrow> pyfloat \<Rightarrow> pyfloat \<Rightarrow> exc + pyfloat" where
  "py_truediv rt a b = (if b = Fin 0 then Inl ZeroDivisionError else Inr (float_div rt a b))"

text \<open>\<^verbatim>\<open>int(x)\<close> truncates towards zero; NaN and the infinities raise.\<close>

fun py_int :: "pyfloat \<Rightarrow> exc + int" where
  "py_int (Fin r) = Inr (if r \<ge> 0 then \<lfloor>r\<rfloor> else \<lceil>r\<rceil>)"
| "py_int PInf = Inl OverflowError"
| "py_int NInf = Inl OverflowError"
| "py_int NaN = Inl ValueError"

text \<open>
  A parsed JSON value: a JSON integer is a Python int, any other JSON number a float; an
  object is the list of its key/value pairs.
\<close>

datatype json =
    JNull
  | JBool bool
  | JInt int
  | JFloat pyfloat
  | JStr string
  | JArr "json list"
  | JObj "(string \<times> json) list"

text \<open>Truth value testing, as in \<^verbatim>\<open>if fumador:\<close>.\<close>

fun py_truthy :: "json \<Rightarrow> bool" where
  "py_truthy JNull = False"
| "py_truthy (JBool b) = b"
| "py_truthy (JInt i) = (i \<noteq> 0)"
| "py_truthy (JFloat x) = (x \<noteq> Fin 0)"
| "py_truthy (JStr s) = (s \<noteq> [])"
| "py_truthy (JArr xs) = (xs \<noteq> [])"
| "py_truthy (JObj kvs) = (kvs \<noteq> [])"

text \<open>\<^verbatim>\<open>float(v)\<close>.\<close>

fun py_float :: "runtime \<Rightarrow> json \<Rightarrow> exc + pyfloat" where
  "py_float rt (JFloat x) = Inr x"
| "py_float rt (JInt i) = float_of_int rt i"
| "py_float rt (JBool b) = Inr (Fin (if b then 1 else 0))"
| "py_float rt (JStr s) =
     (case float_of_str rt s of None \<Rightarrow> Inl ValueError | Some x \<Rightarrow> Inr x)"
| "py_float rt v = Inl TypeError"

text \<open>\<^verbatim>\<open>data[k]\<close> for a string key: only a dict can be subscripted with it.\<close>

fun py_getitem :: "json \<Rightarrow> string \<Rightarrow> exc + json" where
  "py_getitem (JObj kvs) k = (case map_of kvs k of None \<Rightarrow> Inl (KeyError k) | Some v \<Rightarrow> Inr v)"
| "py_getitem v k = Inl TypeError"

text \<open>
  \<^verbatim>\<open>max(xs, key=f)\<close> on a non-empty list, started at its first element:
  the first element with the largest key is kept.
\<close>

fun py_max_key :: "('a \<Rightarrow> int) \<Rightarrow> 'a \<Rightarrow> 'a list \<Rightarrow> 'a" where
  "py_max_key f best [] = best"
| "py_max_key f best (x # xs) = py_max_key f (if f x > f best then x else best) xs"

text \<open>Sequencing of steps that may raise: the first exception ends the \<^verbatim>\<open>try\<close> body.\<close>

definition andthen :: "exc + 'a \<Rightarrow> ('a \<Rightarrow> exc + 'b) \<Rightarrow> exc + 'b" where
  "andthen m f = (case m of Inl e \<Rightarrow> Inl e | Inr x \<Rightarrow> f x)"

section \<open>The rules\<close>

text \<open>The dict \<^verbatim>\<open>{"probabilidad": ..., "nivel": ...}\<close> every rule returns.\<close>

record assessment =
  probabilidad :: int
  nivel :: string

definition calcular_hipertension :: "pyfloat \<Rightarrow> pyfloat \<Rightarrow> assessment" where
  "calcular_hipertension sys_bp dia_bp =
     (if py_ge sys_bp 140 \<or> py_ge dia_bp 90 then \<lparr>probabilidad = 92, nivel = ''Alto''\<rparr>
      else if py_ge sys_bp 130 \<or> py_ge dia_bp 80 then \<lparr>probabilidad = 75, nivel = ''Moderado''\<rparr>
      else if py_ge sys_bp 120 \<and> py_lt dia_bp 80 then \<lparr>probabilidad = 45, nivel = ''Moderado''\<rparr>
      else \<lparr>probabilidad = 10, nivel = ''Bajo''\<rparr>)"

definition calcular_diabetes :: "pyfloat \<Rightarrow> assessment" where
  "calcular_diabetes glucosa =
     (if py_ge glucosa 126 then \<lparr>probabilidad = 95, nivel = ''Alto''\<rparr>
      else if py_ge glucosa 100 then \<lparr>probabilidad = 45, nivel = ''Moderado''\<rparr>
      else \<lparr>probabilidad = 10, nivel = ''Bajo''\<rparr>)"

definition calcular_dislipidemia :: "pyfloat \<Rightarrow> pyfloat \<Rightarrow> pyfloat \<Rightarrow> assessment" where
  "calcular_dislipidemia ldl hdl total_chol =
     (let riesgos = [];
          riesgos = (if py_ge ldl 160 then riesgos @ [\<lparr>probabilidad = 85, nivel = ''Alto''\<rparr>]
                     else if py_ge ldl 130
                       then riesgos @ [\<lparr>probabilidad = 60, nivel = ''Moderado''\<rparr>]
                     else riesgos);
          riesgos = (if py_lt hdl 40 then riesgos @ [\<lparr>probabilidad = 90, nivel = ''Alto''\<rparr>]
                     else riesgos);
          riesgos = (if py_ge total_chol 240 then riesgos @ [\<lparr>probabilidad = 80, nivel = ''Alto''\<rparr>]
                     else if py_ge total_chol 200
                       then riesgos @ [\<lparr>probabilidad = 50, nivel = ''Moderado''\<rparr>]
                     else riesgos)
      in case riesgos of
           [] \<Rightarrow> \<lparr>probabilidad = 10, nivel = ''Bajo''\<rparr>
         | r # rs \<Rightarrow> py_max_key probabilidad r rs)"

definition calcular_riesgo_estilo_vida :: "json \<Rightarrow> json \<Rightarrow> json \<Rightarrow> assessment" where
  "calcular_riesgo_estilo_vida fumador actividad alcohol =
     (let puntos_riesgo = (0::int);
          puntos_riesgo = (if py_truthy fumador then puntos_riesgo + 1 else puntos_riesgo);
          puntos_riesgo = (if actividad = JStr ''Sedentario'' then puntos_riesgo + 1
                           else puntos_riesgo);
          puntos_riesgo = (if alcohol \<in> set [JStr ''Moderado'', JStr ''Alto'']
                           then puntos_riesgo + 1 else puntos_riesgo)
      in if puntos_riesgo = 3 then \<lparr>probabilidad = 90, nivel = ''Alto''\<rparr>
         else if puntos_riesgo = 2 then \<lparr>probabilidad = 60, nivel = ''Moderado''\<rparr>
         else if puntos_riesgo = 1 then \<lparr>probabilidad = 30, nivel = ''Bajo''\<rparr>
         else \<lparr>probabilidad = 10, nivel = ''Bajo''\<rparr>)"

definition nivel_riesgo_coronario :: "runtime \<Rightarrow> pyfloat \<Rightarrow> string" where
  "nivel_riesgo_coronario rt prob_raw =
     (if py_ge prob_raw (lit_070 rt) then ''Alto''
      else if py_ge prob_raw (lit_030 rt) then ''Moderado''
      else ''Bajo'')"

section \<open>The request handler\<close>

text \<open>An element of \<^verbatim>\<open>probabilidades_enfermedades\<close>, and the response body.\<close>

record entry = assessment +
  enfermedad :: string

record report =
  riesgo_general :: int
  modelo_version :: string
  probabilidades_enfermedades :: "entry list"

text \<open>
  The process-wide resources. The Keras model and the scaler are files outside the
  repository: each is \<open>None\<close> when not loaded, and otherwise a function that may raise.
  \<open>model\<close> stands for \<^verbatim>\<open>model.predict(x)[0][0]\<close>, \<open>scaler\<close> for
  \<^verbatim>\<open>scaler.transform\<close> on the one-row array.
\<close>

record resources =
  model :: "(pyfloat list \<Rightarrow> exc + pyfloat) option"
  scaler :: "(pyfloat list \<Rightarrow> exc + pyfloat list) option"

text \<open>
  What the handler returns: the report with status 200, the missing-field error with
  status 400 (its message quotes the key of the KeyError), the resource error with
  status 500, or the internal error with status 500 (its message quotes the exception).
\<close>

datatype response =
    Ok200 report
  | Error400 string
  | Error500_unavailable
  | Error500_internal exc

text \<open>\<^verbatim>\<open>float(data[k])\<close>.\<close>

definition float_field :: "runtime \<Rightarrow> json \<Rightarrow> string \<Rightarrow> exc + pyfloat" where
  "float_field rt data k = andthen (py_getitem data k) (py_float rt)"

text \<open>\<^verbatim>\<open>max(probabilidades)\<close> on the five-element list of Python ints.\<close>

fun py_max :: "int \<Rightarrow> int list \<Rightarrow> int" where
  "py_max best [] = best"
| "py_max best (x # xs) = py_max (if x > best then x else best) xs"

text \<open>The body of the \<^verbatim>\<open>try\<close> block, statement by statement.\<close>

definition try_body ::
  "(pyfloat list \<Rightarrow> exc + pyfloat) \<Rightarrow> (pyfloat list \<Rightarrow> exc + pyfloat list) \<Rightarrow>
   runtime \<Rightarrow> json \<Rightarrow> exc + report" where
  "try_body m s rt data =
     andthen (float_field rt data ''altura_cm'') (\<lambda>altura_cm.
     andthen (py_truediv rt altura_cm (Fin 100)) (\<lambda>altura_m.
     andthen (float_field rt data ''peso_kg'') (\<lambda>peso_kg.
     andthen (float_sq rt altura_m) (\<lambda>altura_m2.
     andthen (py_truediv rt peso_kg altura_m2) (\<lambda>bmi.
     andthen (float_field rt data ''edad'') (\<lambda>edad.
     andthen (py_getitem data ''sexo'') (\<lambda>sexo.
     andthen (float_field rt data ''presion_sistolica'') (\<lambda>sis0.
     andthen (float_field rt data ''presion_diastolica'') (\<lambda>dia0.
     andthen (float_field rt data ''colesterol_total'') (\<lambda>tot0.
     andthen (float_field rt data ''glucosa'') (\<lambda>glu0.
     andthen (py_getitem data ''fumador'') (\<lambda>fum0.
     let input_data =
           [edad, Fin (if sexo = JStr ''Masculino'' then 1 else 0), sis0, dia0, tot0, glu0, bmi,
            Fin (if py_truthy fum0 then 1 else 0)]
     in
     andthen (s input_data) (\<lambda>input_scaled.
     andthen (m input_scaled) (\<lambda>prob_coronaria_raw.
     andthen (py_int (times_100 rt prob_coronaria_raw)) (\<lambda>prob_coronaria_pct.
     andthen (float_field rt data ''presion_sistolica'') (\<lambda>sis.
     andthen (float_field rt data ''presion_diastolica'') (\<lambda>dia.
     let prob_hipertension_obj = calcular_hipertension sis dia in
     andthen (float_field rt data ''glucosa'') (\<lambda>glu.
     let prob_diabetes_obj = calcular_diabetes glu in
     andthen (float_field rt data ''colesterol_ldl'') (\<lambda>ldl.
     andthen (float_field rt data ''colesterol_hdl'') (\<lambda>hdl.
     andthen (float_field rt data ''colesterol_total'') (\<lambda>tot.
     let prob_dislipidemia_obj = calcular_dislipidemia ldl hdl tot in
     andthen (py_getitem data ''fumador'') (\<lambda>fumador.
     andthen (py_getitem data ''actividad_fisica'') (\<lambda>actividad.
     andthen (py_getitem data ''consumo_alcohol'') (\<lambda>alcohol.
     let prob_estilo_vida_obj = calcular_riesgo_estilo_vida fumador actividad alcohol;
         probabilidades =
           [probabilidad prob_hipertension_obj, probabilidad prob_diabetes_obj,
            probabilidad prob_dislipidemia_obj, probabilidad prob_estilo_vida_obj];
         riesgo_general_pct = py_max prob_coronaria_pct probabilidades
     in Inr \<lparr>riesgo_general = riesgo_general_pct,
             modelo_version = ''1.2-hibrido-avanzado'',
             probabilidades_enfermedades =
               [\<lparr>probabilidad = prob_coronaria_pct,
                 nivel = nivel_riesgo_coronario rt prob_coronaria_raw,
                 enfermedad = ''Coronary Artery Disease''\<rparr>,
                \<lparr>probabilidad = probabilidad prob_hipertension_obj,
                 nivel = nivel prob_hipertension_obj,
                 enfermedad = ''Hypertension''\<rparr>,
                \<lparr>probabilidad = probabilidad prob_diabetes_obj,
                 nivel = nivel prob_diabetes_obj,
                 enfermedad = ''Type 2 Diabetes''\<rparr>,
                \<lparr>probabilidad = probabilidad prob_dislipidemia_obj,
                 nivel = nivel prob_dislipidemia_obj,
                 enfermedad = ''Dislipidemia (Colesterol)''\<rparr>,
                \<lparr>probabilidad = probabilidad prob_estilo_vida_obj,
                 nivel = nivel prob_estilo_vida_obj,
                 enfermedad = ''Riesgo por Estilo de Vida''\<rparr>]\<rparr>
     ))))))))))))))))))))))))"

text \<open>
  The handler: the resource check comes before the \<^verbatim>\<open>try\<close>; a KeyError raised
  anywhere in the body gives the 400 response, any other exception the 500 response.
\<close>

definition evaluate_risk :: "runtime \<Rightarrow> resources \<Rightarrow> json \<Rightarrow> response" where
  "evaluate_risk rt res data =
     (case (model res, scaler res) of
        (Some m, Some s) \<Rightarrow>
          (case try_body m s rt data of
             Inr response_json \<Rightarrow> Ok200 response_json
           | Inl (KeyError k) \<Rightarrow> Error400 k
           | Inl e \<Rightarrow> Error500_internal e)
      | _ \<Rightarrow> Error500_unavailable)"

section \<open>The specification's reading of the rules\<close>

text \<open>
  The specification describes the dyslipidemia rule as three independent sub-checks, each
  of which yields at most one assessment; the assessments that trigger are collected.
  These definitions follow the specification's words and are compared with the code below.
\<close>

definition spec_ldl_check :: "pyfloat \<Rightarrow> assessment option" where
  "spec_ldl_check ldl =
     (if py_ge ldl 160 then Some \<lparr>probabilidad = 85, nivel = ''Alto''\<rparr>
      else if py_ge ldl 130 then Some \<lparr>probabilidad = 60, nivel = ''Moderado''\<rparr>
      else None)"

definition spec_hdl_check :: "pyfloat \<Rightarrow> assessment option" where
  "spec_hdl_check hdl =
     (if py_lt hdl 40 then Some \<lparr>probabilidad = 90, nivel = ''Alto''\<rparr> else None)"

definition spec_total_check :: "pyfloat \<Rightarrow> assessment option" where
  "spec_total_check total_chol =
     (if py_ge total_chol 240 then Some \<lparr>probabilidad = 80, nivel = ''Alto''\<rparr>
      else if py_ge total_chol 200 then Some \<lparr>probabilidad = 50, nivel = ''Moderado''\<rparr>
      else None)"

definition spec_triggered :: "pyfloat \<Rightarrow> pyfloat \<Rightarrow> pyfloat \<Rightarrow> assessment list" where
  "spec_triggered ldl hdl total_chol =
     List.map_filter (\<lambda>c. c)
       [spec_ldl_check ldl, spec_hdl_check hdl, spec_total_check total_chol]"

text \<open>
  The specification's lifestyle score: one point each for a smoker, for the activity
  \<^verbatim>\<open>Sedentario\<close> and for an alcohol consumption of \<^verbatim>\<open>Moderado\<close> or
  \<^verbatim>\<open>Alto\<close>.
\<close>

definition spec_points :: "bool \<Rightarrow> json \<Rightarrow> json \<Rightarrow> nat" where
  "spec_points smoker actividad alcohol =
     (if smoker then 1 else 0) + (if actividad = JStr ''Sedentario'' then 1 else 0) +
     (if alcohol = JStr ''Moderado'' \<or> alcohol = JStr ''Alto'' then 1 else 0)"

section \<open>Payloads\<close>

text \<open>
  The thirteen fields the handler reads, in the order in which it first reads them, and
  those among them that it passes to \<^verbatim>\<open>float()\<close>.
\<close>

definition required_fields :: "string list" where
  "required_fields =
     [''altura_cm'', ''peso_kg'', ''edad'', ''sexo'', ''presion_sistolica'',
      ''presion_diastolica'', ''colesterol_total'', ''glucosa'', ''fumador'',
      ''colesterol_ldl'', ''colesterol_hdl'', ''actividad_fisica'', ''consumo_alcohol'']"

definition numeric_fields :: "string list" where
  "numeric_fields =
     [''altura_cm'', ''peso_kg'', ''edad'', ''presion_sistolica'', ''presion_diastolica'',
      ''colesterol_total'', ''glucosa'', ''colesterol_ldl'', ''colesterol_hdl'']"

text \<open>
  Inference returns: both resources are loaded and answer every call, and the product of
  the model's output with 100 is finite, so that \<^verbatim>\<open>int()\<close> accepts it.
\<close>

definition inference_returns :: "runtime \<Rightarrow> resources \<Rightarrow> bool" where
  "inference_returns rt res \<longleftrightarrow>
     (\<exists>m s. model res = Some m \<and> scaler res = Some s \<and>
            (\<forall>xs. \<exists>ys raw v. s xs = Inr ys \<and> m ys = Inr raw \<and> times_100 rt raw = Fin v))"

text \<open>
  The body mass index can be computed from the height \<open>a\<close> (in cm): the square of the
  height in metres neither overflows nor is zero.
\<close>

definition bmi_computable :: "runtime \<Rightarrow> pyfloat \<Rightarrow> bool" where
  "bmi_computable rt a \<longleftrightarrow>
     (\<exists>h2. float_sq rt (float_div rt a (Fin 100)) = Inr h2 \<and> h2 \<noteq> Fin 0)"

text \<open>
  A valid input: inference returns, every required field is present, every numeric field
  converts to a float, and the body mass index can be computed from the height.
\<close>

definition valid_input :: "runtime \<Rightarrow> resources \<Rightarrow> json \<Rightarrow> bool" where
  "valid_input rt res data \<longleftrightarrow>
     inference_returns rt res \<and>
     (\<forall>k \<in> set required_fields. \<exists>v. py_getitem data k = Inr v) \<and>
     (\<forall>k \<in> set numeric_fields. \<exists>x. float_field rt data k = Inr x) \<and>
     (\<forall>a. float_field rt data ''altura_cm'' = Inr a \<longrightarrow> bmi_computable rt a)"


text \<open>
  A runtime with exact arithmetic. Python's arithmetic agrees with it wherever the exact
  result is a float, which is the case at every step of the runs below: their payloads
  hold small integers, the height 200 (or 0) gives 2 (or 0) metres, and the model answers
  0.5 or \<open>-1\<close>. Its thresholds are the decimals 0.70 and 0.30 themselves; the outputs
  0.5 and \<open>-1\<close> lie on the same side of them as of the floats next to them.
\<close>

fun exact_div :: "pyfloat \<Rightarrow> pyfloat \<Rightarrow> pyfloat" where
  "exact_div NaN b = NaN"
| "exact_div a NaN = NaN"
| "exact_div (Fin x) (Fin y) = Fin (x / y)"
| "exact_div (Fin x) PInf = Fin 0"
| "exact_div (Fin x) NInf = Fin 0"
| "exact_div PInf (Fin y) = (if y > 0 then PInf else NInf)"
| "exact_div NInf (Fin y) = (if y > 0 then NInf else PInf)"
| "exact_div PInf PInf = NaN"
| "exact_div PInf NInf = NaN"
| "exact_div NInf PInf = NaN"
| "exact_div NInf NInf = NaN"

fun exact_sq :: "pyfloat \<Rightarrow> pyfloat" where
  "exact_sq (Fin r) = Fin (r ^ 2)"
| "exact_sq PInf = PInf"
| "exact_sq NInf = PInf"
| "exact_sq NaN = NaN"

fun exact_times_100 :: "pyfloat \<Rightarrow> pyfloat" where
  "exact_times_100 (Fin r) = Fin (r * 100)"
| "exact_times_100 a = a"

definition exact_runtime :: runtime where
  "exact_runtime =
     \<lparr>float_of_int = (\<lambda>i. Inr (Fin (of_int i))), float_of_str = (\<lambda>str. None),
      float_div = exact_div, float_sq = (\<lambda>a. Inr (exact_sq a)),
      times_100 = exact_times_100, lit_070 = 0.70, lit_030 = 0.30\<rparr>"

text \<open>
  Concrete inputs. The resources: a model that always answers 0.5 (or \<open>-1\<close>) and a
  scaler that returns its input. The payloads: a high-risk patient, the same without the
  LDL field, a low-risk patient, and a payload of height zero that lacks eleven fields.
\<close>

definition example_resources :: resources where
  "example_resources =
     \<lparr>model = Some (\<lambda>xs. Inr (Fin 0.5)), scaler = Some (\<lambda>xs. Inr xs)\<rparr>"

definition negative_model_resources :: resources where
  "negative_model_resources =
     \<lparr>model = Some (\<lambda>xs. Inr (Fin (- 1))), scaler = Some (\<lambda>xs. Inr xs)\<rparr>"

definition example_payload :: json where
  "example_payload =
     JObj [(''edad'', JInt 50), (''sexo'', JStr ''Masculino''),
           (''altura_cm'', JInt 200), (''peso_kg'', JInt 100),
           (''presion_sistolica'', JInt 145), (''presion_diastolica'', JInt 95),
           (''colesterol_total'', JInt 250), (''colesterol_ldl'', JInt 170),
           (''colesterol_hdl'', JInt 35), (''glucosa'', JInt 130),
           (''fumador'', JBool True), (''actividad_fisica'', JStr ''Sedentario''),
           (''consumo_alcohol'', JStr ''Moderado'')]"

definition example_report :: report where
  "example_report =
     \<lparr>riesgo_general = 95,
      modelo_version = ''1.2-hibrido-avanzado'',
      probabilidades_enfermedades =
        [\<lparr>probabilidad = 50, nivel = ''Moderado'', enfermedad = ''Coronary Artery Disease''\<rparr>,
         \<lparr>probabilidad = 92, nivel = ''Alto'', enfermedad = ''Hypertension''\<rparr>,
         \<lparr>probabilidad = 95, nivel = ''Alto'', enfermedad = ''Type 2 Diabetes''\<rparr>,
         \<lparr>probabilidad = 90, nivel = ''Alto'', enfermedad = ''Dislipidemia (Colesterol)''\<rparr>,
         \<lparr>probabilidad = 90, nivel = ''Alto'', enfermedad = ''Riesgo por Estilo de Vida''\<rparr>]\<rparr>"


definition low_risk_payload :: json where
  "low_risk_payload =
     JObj [(''edad'', JInt 30), (''sexo'', JStr ''Femenino''),
           (''altura_cm'', JInt 200), (''peso_kg'', JInt 100),
           (''presion_sistolica'', JInt 110), (''presion_diastolica'', JInt 70),
           (''colesterol_total'', JInt 180), (''colesterol_ldl'', JInt 100),
           (''colesterol_hdl'', JInt 60), (''glucosa'', JInt 90),
           (''fumador'', JBool False), (''actividad_fisica'', JStr ''Activo''),
           (''consumo_alcohol'', JStr ''Ninguno'')]"

definition low_risk_report :: report where
  "low_risk_report =
     \<lparr>riesgo_general = 10,
      modelo_version = ''1.2-hibrido-avanzado'',
      probabilidades_enfermedades =
        [\<lparr>probabilidad = - 100, nivel = ''Bajo'', enfermedad = ''Coronary Artery Disease''\<rparr>,
         \<lparr>probabilidad = 10, nivel = ''Bajo'', enfermedad = ''Hypertension''\<rparr>,
         \<lparr>probabilidad = 10, nivel = ''Bajo'', enfermedad = ''Type 2 Diabetes''\<rparr>,
         \<lparr>probabilidad = 10, nivel = ''Bajo'', enfermedad = ''Dislipidemia (Colesterol)''\<rparr>,
         \<lparr>probabilidad = 10, nivel = ''Bajo'', enfermedad = ''Riesgo por Estilo de Vida''\<rparr>]\<rparr>"


section \<open>Properties of the rules\<close>

text \<open>
  Claim C3. For all LDL, HDL and total cholesterol values: when no sub-check triggers, the
  dyslipidemia rule returns probability 10 with level Bajo (Low); otherwise it returns one
  of the triggered assessments, and no triggered assessment has a higher probability. Its
  probability is always one of 10, 50, 60, 80, 85, 90.
\<close>

theorem dislipidemia_worst_triggered:
  "(spec_triggered ldl hdl tc = [] \<longrightarrow>
      calcular_dislipidemia ldl hdl tc = \<lparr>probabilidad = 10, nivel = ''Bajo''\<rparr>) \<and>
   (spec_triggered ldl hdl tc \<noteq> [] \<longrightarrow>
      calcular_dislipidemia ldl hdl tc \<in> set (spec_triggered ldl hdl tc) \<and>
      (\<forall>a \<in> set (spec_triggered ldl hdl tc).
         probabilidad a \<le> probabilidad (calcular_dislipidemia ldl hdl tc))) \<and>
   probabilidad (calcular_dislipidemia ldl hdl tc) \<in> {10, 50, 60, 80, 85, 90}"
  by (simp add: calcular_dislipidemia_def spec_triggered_def spec_ldl_check_def
        spec_hdl_check_def spec_total_check_def)

theorem dislipidemia_worst_triggered_witness:
  "calcular_dislipidemia (Fin 170) (Fin 35) (Fin 250) =
     \<lparr>probabilidad = 90, nivel = ''Alto''\<rparr> \<and>
   calcular_dislipidemia (Fin 100) (Fin 50) (Fin 150) =
     \<lparr>probabilidad = 10, nivel = ''Bajo''\<rparr>"
  using dislipidemia_worst_triggered [of "Fin 170" "Fin 35" "Fin 250"]
        dislipidemia_worst_triggered [of "Fin 100" "Fin 50" "Fin 150"]
  by (auto simp: spec_triggered_def spec_ldl_check_def spec_hdl_check_def
        spec_total_check_def)

text \<open>
  Claim C4. For every smoker value, activity and alcohol consumption, the lifestyle rule's
  point total is at most 3, and the totals 0, 1, 2, 3 give the probabilities 10, 30, 60, 90
  with the levels Bajo, Bajo, Moderado, Alto (Low, Low, Moderate, High): one point still
  gives the level Bajo. The smoker point follows Python's truth value of the field, which
  for a JSON boolean is the boolean itself.
\<close>

theorem estilo_vida_table:
  "spec_points (py_truthy fumador) actividad alcohol \<le> 3 \<and>
   (spec_points (py_truthy fumador) actividad alcohol = 0 \<longrightarrow>
      calcular_riesgo_estilo_vida fumador actividad alcohol =
        \<lparr>probabilidad = 10, nivel = ''Bajo''\<rparr>) \<and>
   (spec_points (py_truthy fumador) actividad alcohol = 1 \<longrightarrow>
      calcular_riesgo_estilo_vida fumador actividad alcohol =
        \<lparr>probabilidad = 30, nivel = ''Bajo''\<rparr>) \<and>
   (spec_points (py_truthy fumador) actividad alcohol = 2 \<longrightarrow>
      calcular_riesgo_estilo_vida fumador actividad alcohol =
        \<lparr>probabilidad = 60, nivel = ''Moderado''\<rparr>) \<and>
   (spec_points (py_truthy fumador) actividad alcohol = 3 \<longrightarrow>
      calcular_riesgo_estilo_vida fumador actividad alcohol =
        \<lparr>probabilidad = 90, nivel = ''Alto''\<rparr>)"
  by (simp add: calcular_riesgo_estilo_vida_def spec_points_def)

theorem estilo_vida_table_witness:
  "calcular_riesgo_estilo_vida (JBool False) (JStr ''Activo'') (JStr ''Ninguno'') =
     \<lparr>probabilidad = 10, nivel = ''Bajo''\<rparr> \<and>
   calcular_riesgo_estilo_vida (JBool True) (JStr ''Activo'') (JStr ''Ninguno'') =
     \<lparr>probabilidad = 30, nivel = ''Bajo''\<rparr> \<and>
   calcular_riesgo_estilo_vida (JBool True) (JStr ''Sedentario'') (JStr ''Ninguno'') =
     \<lparr>probabilidad = 60, nivel = ''Moderado''\<rparr> \<and>
   calcular_riesgo_estilo_vida (JBool True) (JStr ''Sedentario'') (JStr ''Alto'') =
     \<lparr>probabilidad = 90, nivel = ''Alto''\<rparr>"
  using estilo_vida_table [of "JBool False" "JStr ''Activo''" "JStr ''Ninguno''"]
        estilo_vida_table [of "JBool True" "JStr ''Activo''" "JStr ''Ninguno''"]
        estilo_vida_table [of "JBool True" "JStr ''Sedentario''" "JStr ''Ninguno''"]
        estilo_vida_table [of "JBool True" "JStr ''Sedentario''" "JStr ''Alto''"]
  by (simp add: spec_points_def)

text \<open>
  Claim C5. For every systolic and diastolic pressure the hypertension rule returns the
  first band that matches, in this order: systolic at least 140 or diastolic at least 90
  gives 92 with Alto (High); else systolic at least 130 or diastolic at least 80 gives 75
  with Moderado (Moderate); else systolic at least 120 and diastolic below 80 gives 45 with
  Moderado; else 10 with Bajo (Low).
\<close>

theorem hipertension_bands:
  "(py_ge s 140 \<or> py_ge d 90 \<longrightarrow>
      calcular_hipertension s d = \<lparr>probabilidad = 92, nivel = ''Alto''\<rparr>) \<and>
   (\<not> (py_ge s 140 \<or> py_ge d 90) \<and> (py_ge s 130 \<or> py_ge d 80) \<longrightarrow>
      calcular_hipertension s d = \<lparr>probabilidad = 75, nivel = ''Moderado''\<rparr>) \<and>
   (\<not> (py_ge s 140 \<or> py_ge d 90) \<and> \<not> (py_ge s 130 \<or> py_ge d 80) \<and>
    (py_ge s 120 \<and> py_lt d 80) \<longrightarrow>
      calcular_hipertension s d = \<lparr>probabilidad = 45, nivel = ''Moderado''\<rparr>) \<and>
   (\<not> (py_ge s 140 \<or> py_ge d 90) \<and> \<not> (py_ge s 130 \<or> py_ge d 80) \<and>
    \<not> (py_ge s 120 \<and> py_lt d 80) \<longrightarrow>
      calcular_hipertension s d = \<lparr>probabilidad = 10, nivel = ''Bajo''\<rparr>)"
  by (simp add: calcular_hipertension_def)

theorem hipertension_bands_witness:
  "calcular_hipertension (Fin 145) (Fin 70) = \<lparr>probabilidad = 92, nivel = ''Alto''\<rparr> \<and>
   calcular_hipertension (Fin 125) (Fin 85) = \<lparr>probabilidad = 75, nivel = ''Moderado''\<rparr> \<and>
   calcular_hipertension (Fin 125) (Fin 70) = \<lparr>probabilidad = 45, nivel = ''Moderado''\<rparr> \<and>
   calcular_hipertension (Fin 110) (Fin 70) = \<lparr>probabilidad = 10, nivel = ''Bajo''\<rparr>"
  using hipertension_bands [of "Fin 145" "Fin 70"] hipertension_bands [of "Fin 125" "Fin 85"]
        hipertension_bands [of "Fin 125" "Fin 70"] hipertension_bands [of "Fin 110" "Fin 70"]
  by simp

text \<open>
  Claim C6. The hypertension rule is monotonic: when the systolic and the diastolic
  pressure of one input are each at most those of another (Python's \<^verbatim>\<open><=\<close>), the
  probability returned for the first is at most the probability returned for the second.
\<close>

theorem hipertension_monotonic:
  "py_le s1 s2 \<Longrightarrow> py_le d1 d2 \<Longrightarrow>
   probabilidad (calcular_hipertension s1 d1) \<le> probabilidad (calcular_hipertension s2 d2)"
  by (cases s1; cases s2; cases d1; cases d2) (simp_all add: calcular_hipertension_def)

theorem hipertension_monotonic_witness:
  "py_le (Fin 125) (Fin 145) \<and> py_le (Fin 70) (Fin 95) \<and>
   probabilidad (calcular_hipertension (Fin 125) (Fin 70)) \<le>
   probabilidad (calcular_hipertension (Fin 145) (Fin 95))"
  using hipertension_monotonic [of "Fin 125" "Fin 145" "Fin 70" "Fin 95"] by simp

text \<open>
  Claim C10. The diabetes rule is monotonic in glucose: for glucose values
  \<open>g1 \<le> g2\<close> the probability returned for \<open>g1\<close> is at most the one returned for
  \<open>g2\<close>.
\<close>

theorem diabetes_monotonic:
  "py_le g1 g2 \<Longrightarrow>
   probabilidad (calcular_diabetes g1) \<le> probabilidad (calcular_diabetes g2)"
  by (cases g1; cases g2) (simp_all add: calcular_diabetes_def)

theorem diabetes_monotonic_witness:
  "py_le (Fin 99) (Fin 126) \<and>
   probabilidad (calcular_diabetes (Fin 99)) \<le> probabilidad (calcular_diabetes (Fin 126))"
  using diabetes_monotonic [of "Fin 99" "Fin 126"] by simp

section \<open>Auxiliary facts about the handler\<close>

lemma andthen_simps: "andthen (Inr x) f = f x" "andthen (Inl e) f = Inl e"
  by (simp_all add: andthen_def)

lemma andthen_Inr_iff: "andthen m f = Inr y \<longleftrightarrow> (\<exists>x. m = Inr x \<and> f x = Inr y)"
  by (cases m) (simp_all add: andthen_def)

lemma py_max_fold: "py_max b xs = fold max xs b"
  by (induction xs arbitrary: b) (simp_all add: max_def)

lemma py_max_Max: "py_max b xs = Max (set (b # xs))"
  by (simp only: py_max_fold Max.set_eq_fold)



lemma inference_functions:
  assumes "\<forall>xs. \<exists>ys raw v. s xs = Inr ys \<and> m ys = Inr raw \<and> times_100 rt raw = Fin v"
  shows "\<exists>S R V. (\<forall>xs. s xs = Inr (S xs)) \<and> (\<forall>xs. m (S xs) = Inr (R xs)) \<and>
           (\<forall>xs. times_100 rt (R xs) = Fin (V xs))"
proof -
  from assms have "\<forall>xs. \<exists>t. s xs = Inr (fst t) \<and> m (fst t) = Inr (fst (snd t)) \<and>
      times_100 rt (fst (snd t)) = Fin (snd (snd t))"
    by (metis fst_conv snd_conv)
  then obtain F where F: "\<forall>xs. s xs = Inr (fst (F xs)) \<and> m (fst (F xs)) = Inr (fst (snd (F xs))) \<and>
      times_100 rt (fst (snd (F xs))) = Fin (snd (snd (F xs)))"
    by (rule choice [THEN exE])
  show ?thesis
    by (rule exI [of _ "\<lambda>xs. fst (F xs)"], rule exI [of _ "\<lambda>xs. fst (snd (F xs))"],
        rule exI [of _ "\<lambda>xs. snd (snd (F xs))"]) (simp add: F)
qed


lemma try_body_Inr:
  assumes "try_body m s rt data = Inr rep"
  shows "\<exists>altura_cm altura_m peso_kg altura_m2 bmi edad sexo sis dia tot glu fumador ldl hdl
           actividad alcohol input_scaled raw pct.
     float_field rt data ''altura_cm'' = Inr altura_cm \<and>
     py_truediv rt altura_cm (Fin 100) = Inr altura_m \<and>
     float_field rt data ''peso_kg'' = Inr peso_kg \<and>
     float_sq rt altura_m = Inr altura_m2 \<and>
     py_truediv rt peso_kg altura_m2 = Inr bmi \<and>
     float_field rt data ''edad'' = Inr edad \<and>
     py_getitem data ''sexo'' = Inr sexo \<and>
     float_field rt data ''presion_sistolica'' = Inr sis \<and>
     float_field rt data ''presion_diastolica'' = Inr dia \<and>
     float_field rt data ''colesterol_total'' = Inr tot \<and>
     float_field rt data ''glucosa'' = Inr glu \<and>
     py_getitem data ''fumador'' = Inr fumador \<and>
     float_field rt data ''colesterol_ldl'' = Inr ldl \<and>
     float_field rt data ''colesterol_hdl'' = Inr hdl \<and>
     py_getitem data ''actividad_fisica'' = Inr actividad \<and>
     py_getitem data ''consumo_alcohol'' = Inr alcohol \<and>
     s [edad, Fin (if sexo = JStr ''Masculino'' then 1 else 0), sis, dia, tot, glu, bmi,
        Fin (if py_truthy fumador then 1 else 0)] = Inr input_scaled \<and>
     m input_scaled = Inr raw \<and>
     py_int (times_100 rt raw) = Inr pct \<and>
     riesgo_general rep =
       py_max pct [probabilidad (calcular_hipertension sis dia),
                   probabilidad (calcular_diabetes glu),
                   probabilidad (calcular_dislipidemia ldl hdl tot),
                   probabilidad (calcular_riesgo_estilo_vida fumador actividad alcohol)] \<and>
     modelo_version rep = ''1.2-hibrido-avanzado'' \<and>
     probabilidades_enfermedades rep =
       [\<lparr>probabilidad = pct, nivel = nivel_riesgo_coronario rt raw,
         enfermedad = ''Coronary Artery Disease''\<rparr>,
        \<lparr>probabilidad = probabilidad (calcular_hipertension sis dia),
         nivel = nivel (calcular_hipertension sis dia), enfermedad = ''Hypertension''\<rparr>,
        \<lparr>probabilidad = probabilidad (calcular_diabetes glu),
         nivel = nivel (calcular_diabetes glu), enfermedad = ''Type 2 Diabetes''\<rparr>,
        \<lparr>probabilidad = probabilidad (calcular_dislipidemia ldl hdl tot),
         nivel = nivel (calcular_dislipidemia ldl hdl tot),
         enfermedad = ''Dislipidemia (Colesterol)''\<rparr>,
        \<lparr>probabilidad = probabilidad (calcular_riesgo_estilo_vida fumador actividad alcohol),
         nivel = nivel (calcular_riesgo_estilo_vida fumador actividad alcohol),
         enfermedad = ''Riesgo por Estilo de Vida''\<rparr>]"
  using assms unfolding try_body_def Let_def andthen_Inr_iff
  by (elim exE conjE) clarsimp

lemma evaluate_risk_Ok200:
  "evaluate_risk rt res data = Ok200 rep \<longleftrightarrow>
     (\<exists>m s. model res = Some m \<and> scaler res = Some s \<and> try_body m s rt data = Inr rep)"
  by (auto simp: evaluate_risk_def split: option.splits sum.splits exc.splits)


lemma valid_input_try_body:
  assumes inf: "\<forall>xs. \<exists>ys raw v. s xs = Inr ys \<and> m ys = Inr raw \<and> times_100 rt raw = Fin v"
    and req: "\<forall>k \<in> set required_fields. \<exists>v. py_getitem data k = Inr v"
    and num: "\<forall>k \<in> set numeric_fields. \<exists>x. float_field rt data k = Inr x"
    and h: "\<forall>a. float_field rt data ''altura_cm'' = Inr a \<longrightarrow> bmi_computable rt a"
  shows "\<exists>rep. try_body m s rt data = Inr rep"
proof -
  from inference_functions [OF inf] obtain S R V where S: "\<And>xs. s xs = Inr (S xs)"
    and M: "\<And>xs. m (S xs) = Inr (R xs)" and T: "\<And>xs. times_100 rt (R xs) = Fin (V xs)"
    by blast
  from num obtain altura peso edad sis dia tot glu ldl hdl where f:
    "float_field rt data ''altura_cm'' = Inr altura"
    "float_field rt data ''peso_kg'' = Inr peso"
    "float_field rt data ''edad'' = Inr edad"
    "float_field rt data ''presion_sistolica'' = Inr sis"
    "float_field rt data ''presion_diastolica'' = Inr dia"
    "float_field rt data ''colesterol_total'' = Inr tot"
    "float_field rt data ''glucosa'' = Inr glu"
    "float_field rt data ''colesterol_ldl'' = Inr ldl"
    "float_field rt data ''colesterol_hdl'' = Inr hdl"
    unfolding numeric_fields_def by auto
  from req obtain sexo fum act alc where g:
    "py_getitem data ''sexo'' = Inr sexo" "py_getitem data ''fumador'' = Inr fum"
    "py_getitem data ''actividad_fisica'' = Inr act"
    "py_getitem data ''consumo_alcohol'' = Inr alc"
    unfolding required_fields_def by auto
  from h f(1) obtain h2 where sq: "float_sq rt (float_div rt altura (Fin 100)) = Inr h2"
    and nz: "h2 \<noteq> Fin 0"
    unfolding bmi_computable_def by blast
  show ?thesis
    unfolding try_body_def
    using nz by (simp add: f g sq S M T andthen_simps Let_def py_truediv_def)
qed

text \<open>The equations that run the handler on a concrete payload.\<close>

lemmas run_defs =
  evaluate_risk_def exact_runtime_def try_body_def float_field_def andthen_simps py_truediv_def
  calcular_hipertension_def calcular_diabetes_def calcular_dislipidemia_def
  calcular_riesgo_estilo_vida_def nivel_riesgo_coronario_def

lemma example_evaluates:
  "evaluate_risk exact_runtime example_resources example_payload = Ok200 example_report"
  by (simp add: run_defs example_resources_def example_payload_def example_report_def)

lemma low_risk_evaluates:
  "evaluate_risk exact_runtime negative_model_resources low_risk_payload = Ok200 low_risk_report"
  by (simp add: run_defs negative_model_resources_def low_risk_payload_def low_risk_report_def)

lemma example_inference_returns: "inference_returns exact_runtime example_resources"
  by (simp add: inference_returns_def exact_runtime_def example_resources_def)

lemma example_valid: "valid_input exact_runtime example_resources example_payload"
  by (simp add: valid_input_def example_inference_returns)
     (simp add: exact_runtime_def example_payload_def required_fields_def numeric_fields_def
        float_field_def andthen_simps bmi_computable_def)



section \<open>Properties of the handler\<close>

text \<open>
  Claim C1. A valid input yields a report, and in every report the handler returns the
  overall risk \<^verbatim>\<open>riesgo_general\<close> equals the maximum of the five component
  probabilities: the coronary percentage computed from the model's output and the
  probabilities of the four rules on the payload's fields. It is also the maximum of the
  probabilities listed in the report.
\<close>

theorem overall_risk_is_max:
  "(valid_input rt res data \<longrightarrow> (\<exists>rep. evaluate_risk rt res data = Ok200 rep)) \<and>
   (evaluate_risk rt res data = Ok200 rep \<longrightarrow>
      riesgo_general rep = Max (set (map probabilidad (probabilidades_enfermedades rep))) \<and>
      (\<exists>m xs raw pct sis dia glu ldl hdl tot fumador actividad alcohol.
         model res = Some m \<and> m xs = Inr raw \<and> py_int (times_100 rt raw) = Inr pct \<and>
         float_field rt data ''presion_sistolica'' = Inr sis \<and>
         float_field rt data ''presion_diastolica'' = Inr dia \<and>
         float_field rt data ''glucosa'' = Inr glu \<and>
         float_field rt data ''colesterol_ldl'' = Inr ldl \<and>
         float_field rt data ''colesterol_hdl'' = Inr hdl \<and>
         float_field rt data ''colesterol_total'' = Inr tot \<and>
         py_getitem data ''fumador'' = Inr fumador \<and>
         py_getitem data ''actividad_fisica'' = Inr actividad \<and>
         py_getitem data ''consumo_alcohol'' = Inr alcohol \<and>
         riesgo_general rep =
           Max {pct, probabilidad (calcular_hipertension sis dia),
                probabilidad (calcular_diabetes glu),
                probabilidad (calcular_dislipidemia ldl hdl tot),
                probabilidad (calcular_riesgo_estilo_vida fumador actividad alcohol)}))"
proof (intro conjI impI)
  assume "valid_input rt res data"
  then obtain m s where ms: "model res = Some m" "scaler res = Some s"
    and inf: "\<forall>xs. \<exists>ys raw v. s xs = Inr ys \<and> m ys = Inr raw \<and> times_100 rt raw = Fin v"
    and flds: "\<forall>k \<in> set required_fields. \<exists>v. py_getitem data k = Inr v"
      "\<forall>k \<in> set numeric_fields. \<exists>x. float_field rt data k = Inr x"
      "\<forall>a. float_field rt data ''altura_cm'' = Inr a \<longrightarrow> bmi_computable rt a"
    unfolding valid_input_def inference_returns_def by blast
  from valid_input_try_body [OF inf flds]
  obtain rep' where "try_body m s rt data = Inr rep'" by blast
  with ms show "\<exists>rep. evaluate_risk rt res data = Ok200 rep"
    unfolding evaluate_risk_Ok200 by blast
next
  assume ok: "evaluate_risk rt res data = Ok200 rep"
  then obtain m s where ms: "model res = Some m" "scaler res = Some s"
    and tb: "try_body m s rt data = Inr rep"
    unfolding evaluate_risk_Ok200 by blast
  from try_body_Inr [OF tb] obtain sis dia tot glu fumador ldl hdl actividad alcohol
    input_scaled raw pct where f:
    "float_field rt data ''presion_sistolica'' = Inr sis"
    "float_field rt data ''presion_diastolica'' = Inr dia"
    "float_field rt data ''colesterol_total'' = Inr tot"
    "float_field rt data ''glucosa'' = Inr glu"
    "py_getitem data ''fumador'' = Inr fumador"
    "float_field rt data ''colesterol_ldl'' = Inr ldl"
    "float_field rt data ''colesterol_hdl'' = Inr hdl"
    "py_getitem data ''actividad_fisica'' = Inr actividad"
    "py_getitem data ''consumo_alcohol'' = Inr alcohol"
    and mr: "m input_scaled = Inr raw" "py_int (times_100 rt raw) = Inr pct"
    and rg: "riesgo_general rep =
       py_max pct [probabilidad (calcular_hipertension sis dia),
                   probabilidad (calcular_diabetes glu),
                   probabilidad (calcular_dislipidemia ldl hdl tot),
                   probabilidad (calcular_riesgo_estilo_vida fumador actividad alcohol)]"
    and pe: "probabilidades_enfermedades rep =
       [\<lparr>probabilidad = pct, nivel = nivel_riesgo_coronario rt raw,
         enfermedad = ''Coronary Artery Disease''\<rparr>,
        \<lparr>probabilidad = probabilidad (calcular_hipertension sis dia),
         nivel = nivel (calcular_hipertension sis dia), enfermedad = ''Hypertension''\<rparr>,
        \<lparr>probabilidad = probabilidad (calcular_diabetes glu),
         nivel = nivel (calcular_diabetes glu), enfermedad = ''Type 2 Diabetes''\<rparr>,
        \<lparr>probabilidad = probabilidad (calcular_dislipidemia ldl hdl tot),
         nivel = nivel (calcular_dislipidemia ldl hdl tot),
         enfermedad = ''Dislipidemia (Colesterol)''\<rparr>,
        \<lparr>probabilidad = probabilidad (calcular_riesgo_estilo_vida fumador actividad alcohol),
         nivel = nivel (calcular_riesgo_estilo_vida fumador actividad alcohol),
         enfermedad = ''Riesgo por Estilo de Vida''\<rparr>]"
    by blast
  show "riesgo_general rep = Max (set (map probabilidad (probabilidades_enfermedades rep)))"
    unfolding rg pe py_max_Max by simp
  have mx: "riesgo_general rep =
      Max {pct, probabilidad (calcular_hipertension sis dia),
           probabilidad (calcular_diabetes glu),
           probabilidad (calcular_dislipidemia ldl hdl tot),
           probabilidad (calcular_riesgo_estilo_vida fumador actividad alcohol)}"
    unfolding rg py_max_Max by simp
  show "\<exists>m xs raw pct sis dia glu ldl hdl tot fumador actividad alcohol.
         model res = Some m \<and> m xs = Inr raw \<and> py_int (times_100 rt raw) = Inr pct \<and>
         float_field rt data ''presion_sistolica'' = Inr sis \<and>
         float_field rt data ''presion_diastolica'' = Inr dia \<and>
         float_field rt data ''glucosa'' = Inr glu \<and>
         float_field rt data ''colesterol_ldl'' = Inr ldl \<and>
         float_field rt data ''colesterol_hdl'' = Inr hdl \<and>
         float_field rt data ''colesterol_total'' = Inr tot \<and>
         py_getitem data ''fumador'' = Inr fumador \<and>
         py_getitem data ''actividad_fisica'' = Inr actividad \<and>
         py_getitem data ''consumo_alcohol'' = Inr alcohol \<and>
         riesgo_general rep =
           Max {pct, probabilidad (calcular_hipertension sis dia),
                probabilidad (calcular_diabetes glu),
                probabilidad (calcular_dislipidemia ldl hdl tot),
                probabilidad (calcular_riesgo_estilo_vida fumador actividad alcohol)}"
    by (intro conjI exI) (rule ms(1) mr f mx)+
qed

theorem overall_risk_is_max_witness:
  "valid_input exact_runtime example_resources example_payload \<and>
   evaluate_risk exact_runtime example_resources example_payload = Ok200 example_report \<and>
   riesgo_general example_report =
     Max (set (map probabilidad (probabilidades_enfermedades example_report))) \<and>
   riesgo_general example_report = 95"
  using overall_risk_is_max [of exact_runtime example_resources example_payload example_report]
    example_valid example_evaluates
  by (simp add: example_report_def)

text \<open>
  Claim C8. Every report lists the same five conditions in the same order: coronary artery
  disease, hypertension, type 2 diabetes, dyslipidemia and lifestyle risk, under the labels
  the code gives them (the last two are \<^verbatim>\<open>Dislipidemia (Colesterol)\<close> and
  \<^verbatim>\<open>Riesgo por Estilo de Vida\<close>); each entry carries the probability and level that
  the inference step or the rule of that condition computes from the payload.
\<close>

theorem report_conditions_fixed:
  "evaluate_risk rt res data = Ok200 rep \<Longrightarrow>
   map enfermedad (probabilidades_enfermedades rep) =
     [''Coronary Artery Disease'', ''Hypertension'', ''Type 2 Diabetes'',
      ''Dislipidemia (Colesterol)'', ''Riesgo por Estilo de Vida''] \<and>
   (\<exists>m xs raw pct sis dia glu ldl hdl tot fumador actividad alcohol.
      model res = Some m \<and> m xs = Inr raw \<and> py_int (times_100 rt raw) = Inr pct \<and>
      float_field rt data ''presion_sistolica'' = Inr sis \<and>
      float_field rt data ''presion_diastolica'' = Inr dia \<and>
      float_field rt data ''glucosa'' = Inr glu \<and>
      float_field rt data ''colesterol_ldl'' = Inr ldl \<and>
      float_field rt data ''colesterol_hdl'' = Inr hdl \<and>
      float_field rt data ''colesterol_total'' = Inr tot \<and>
      py_getitem data ''fumador'' = Inr fumador \<and>
      py_getitem data ''actividad_fisica'' = Inr actividad \<and>
      py_getitem data ''consumo_alcohol'' = Inr alcohol \<and>
      map (\<lambda>e. \<lparr>probabilidad = probabilidad e, nivel = nivel e\<rparr>)
          (probabilidades_enfermedades rep) =
        [\<lparr>probabilidad = pct, nivel = nivel_riesgo_coronario rt raw\<rparr>,
         calcular_hipertension sis dia,
         calcular_diabetes glu,
         calcular_dislipidemia ldl hdl tot,
         calcular_riesgo_estilo_vida fumador actividad alcohol])"
proof -
  assume ok: "evaluate_risk rt res data = Ok200 rep"
  then obtain m s where ms: "model res = Some m"
    and tb: "try_body m s rt data = Inr rep"
    unfolding evaluate_risk_Ok200 by blast
  from try_body_Inr [OF tb] obtain sis dia tot glu fumador ldl hdl actividad alcohol
    input_scaled raw pct where f:
    "float_field rt data ''presion_sistolica'' = Inr sis"
    "float_field rt data ''presion_diastolica'' = Inr dia"
    "float_field rt data ''colesterol_total'' = Inr tot"
    "float_field rt data ''glucosa'' = Inr glu"
    "py_getitem data ''fumador'' = Inr fumador"
    "float_field rt data ''colesterol_ldl'' = Inr ldl"
    "float_field rt data ''colesterol_hdl'' = Inr hdl"
    "py_getitem data ''actividad_fisica'' = Inr actividad"
    "py_getitem data ''consumo_alcohol'' = Inr alcohol"
    and mr: "m input_scaled = Inr raw" "py_int (times_100 rt raw) = Inr pct"
    and pe: "probabilidades_enfermedades rep =
       [\<lparr>probabilidad = pct, nivel = nivel_riesgo_coronario rt raw,
         enfermedad = ''Coronary Artery Disease''\<rparr>,
        \<lparr>probabilidad = probabilidad (calcular_hipertension sis dia),
         nivel = nivel (calcular_hipertension sis dia), enfermedad = ''Hypertension''\<rparr>,
        \<lparr>probabilidad = probabilidad (calcular_diabetes glu),
         nivel = nivel (calcular_diabetes glu), enfermedad = ''Type 2 Diabetes''\<rparr>,
        \<lparr>probabilidad = probabilidad (calcular_dislipidemia ldl hdl tot),
         nivel = nivel (calcular_dislipidemia ldl hdl tot),
         enfermedad = ''Dislipidemia (Colesterol)''\<rparr>,
        \<lparr>probabilidad = probabilidad (calcular_riesgo_estilo_vida fumador actividad alcohol),
         nivel = nivel (calcular_riesgo_estilo_vida fumador actividad alcohol),
         enfermedad = ''Riesgo por Estilo de Vida''\<rparr>]"
    by blast
  have names: "map enfermedad (probabilidades_enfermedades rep) =
     [''Coronary Artery Disease'', ''Hypertension'', ''Type 2 Diabetes'',
      ''Dislipidemia (Colesterol)'', ''Riesgo por Estilo de Vida'']"
    unfolding pe by simp
  have vals: "map (\<lambda>e. \<lparr>probabilidad = probabilidad e, nivel = nivel e\<rparr>)
          (probabilidades_enfermedades rep) =
        [\<lparr>probabilidad = pct, nivel = nivel_riesgo_coronario rt raw\<rparr>,
         calcular_hipertension sis dia,
         calcular_diabetes glu,
         calcular_dislipidemia ldl hdl tot,
         calcular_riesgo_estilo_vida fumador actividad alcohol]"
    unfolding pe by simp
  show ?thesis
    by (intro conjI exI) (rule names ms mr f vals)+
qed

theorem report_conditions_fixed_witness:
  "evaluate_risk exact_runtime example_resources example_payload = Ok200 example_report \<and>
   map enfermedad (probabilidades_enfermedades example_report) =
     [''Coronary Artery Disease'', ''Hypertension'', ''Type 2 Diabetes'',
      ''Dislipidemia (Colesterol)'', ''Riesgo por Estilo de Vida'']"
  using report_conditions_fixed [OF example_evaluates] example_evaluates by simp

text \<open>
  Claim C9. Each of the four rules returns a probability of at least 10, and the overall
  risk of every report is at least 10, whatever the model returns.
\<close>

theorem overall_risk_at_least_10:
  "10 \<le> probabilidad (calcular_hipertension s d) \<and>
   10 \<le> probabilidad (calcular_diabetes g) \<and>
   10 \<le> probabilidad (calcular_dislipidemia l h t) \<and>
   10 \<le> probabilidad (calcular_riesgo_estilo_vida f a c) \<and>
   (evaluate_risk rt res data = Ok200 rep \<longrightarrow> 10 \<le> riesgo_general rep)"
proof (intro conjI impI)
  show "10 \<le> probabilidad (calcular_hipertension s d)"
    by (simp add: calcular_hipertension_def)
  show "10 \<le> probabilidad (calcular_diabetes g)"
    by (simp add: calcular_diabetes_def)
  show "10 \<le> probabilidad (calcular_dislipidemia l h t)"
    by (simp add: calcular_dislipidemia_def)
  show "10 \<le> probabilidad (calcular_riesgo_estilo_vida f a c)"
    by (simp add: calcular_riesgo_estilo_vida_def)
next
  assume ok: "evaluate_risk rt res data = Ok200 rep"
  then obtain m s where tb: "try_body m s rt data = Inr rep"
    unfolding evaluate_risk_Ok200 by blast
  from try_body_Inr [OF tb] obtain sis dia pct x y z where
    rg: "riesgo_general rep = py_max pct [probabilidad (calcular_hipertension sis dia), x, y, z]"
    by blast
  have "10 \<le> probabilidad (calcular_hipertension sis dia)"
    by (simp add: calcular_hipertension_def)
  also have "\<dots> \<le> riesgo_general rep"
    unfolding rg py_max_Max by simp
  finally show "10 \<le> riesgo_general rep" .
qed

theorem overall_risk_at_least_10_witness:
  "evaluate_risk exact_runtime negative_model_resources low_risk_payload = Ok200 low_risk_report \<and>
   10 \<le> riesgo_general low_risk_report \<and>
   10 \<le> probabilidad (calcular_hipertension (Fin 110) (Fin 70)) \<and>
   10 \<le> probabilidad (calcular_diabetes (Fin 90)) \<and>
   10 \<le> probabilidad (calcular_dislipidemia (Fin 100) (Fin 60) (Fin 180)) \<and>
   10 \<le> probabilidad
          (calcular_riesgo_estilo_vida (JBool False) (JStr ''Activo'') (JStr ''Ninguno''))"
  using overall_risk_at_least_10 [of "Fin 110" "Fin 70" "Fin 90" "Fin 100" "Fin 60" "Fin 180"
      "JBool False" "JStr ''Activo''" "JStr ''Ninguno''" exact_runtime negative_model_resources
      low_risk_payload low_risk_report] low_risk_evaluates
  by simp




end
